theory Spec2Isabelle
  imports Complex_Main
begin

section \<open>Constants of Platformer.py\<close>

text \<open>
  The program is one Python file: the constants, the class \<open>PlayerSprite\<close> with its
  animation callback \<open>pymunk_moved\<close>, and the class \<open>GameWindow\<close> with \<open>setup\<close>, the
  key callbacks and \<open>on_update\<close>. The game engine it runs on (window, tile maps, sprites,
  physics, sound) is a library outside the program: what the code reads from it (the maps,
  the hit box, the collision test, ground contact, the displacement of a physics step) is
  an input of the model, and what the code makes it do is recorded as a list of calls.

  Python floats are modelled as \<^typ>\<open>real\<close>, Python integers as \<^typ>\<open>int\<close>.
  \<open>int(x)\<close> on a float truncates toward zero.
\<close>

definition py_int :: "real \<Rightarrow> int" where
  "py_int x = (if x < 0 then \<lceil>x\<rceil> else \<lfloor>x\<rfloor>)"

definition SPRITE_IMAGE_SIZE :: int where
  "SPRITE_IMAGE_SIZE = 128"

definition SPRITE_SCALE :: real where
  "SPRITE_SCALE = 1 / 2"

definition SPRITE_SIZE :: int where
  "SPRITE_SIZE = py_int (real_of_int SPRITE_IMAGE_SIZE * SPRITE_SCALE) + 1"

definition SCREEN_GRID_WIDTH :: int where
  "SCREEN_GRID_WIDTH = 30"

definition SCREEN_WIDTH :: real where
  "SCREEN_WIDTH = 1920"

definition SCREEN_HEIGHT :: real where
  "SCREEN_HEIGHT = 1080"

definition GRAVITY :: real where
  "GRAVITY = 1500"

definition DEFAULT_DAMPING :: real where
  "DEFAULT_DAMPING = 1"

definition PLAYER_FRICTION :: real where
  "PLAYER_FRICTION = 1"

definition WALL_FRICTION :: real where
  "WALL_FRICTION = 7 / 10"

definition DYNAMIC_ITEM_FRICTION :: real where
  "DYNAMIC_ITEM_FRICTION = 6 / 10"

definition PLAYER_MASS :: real where
  "PLAYER_MASS = 2"

definition PLAYER_MAX_HORIZONTAL_SPEED :: real where
  "PLAYER_MAX_HORIZONTAL_SPEED = 250"

definition PLAYER_MAX_VERTICAL_SPEED :: real where
  "PLAYER_MAX_VERTICAL_SPEED = 1300"

definition PLAYER_MOVE_FORCE_ON_GROUND :: real where
  "PLAYER_MOVE_FORCE_ON_GROUND = 8000"

definition PLAYER_MOVE_FORCE_IN_AIR :: real where
  "PLAYER_MOVE_FORCE_IN_AIR = 900"

definition PLAYER_JUMP_IMPULSE :: real where
  "PLAYER_JUMP_IMPULSE = 1400"

definition LEFT_VIEWPORT_MARGIN :: real where
  "LEFT_VIEWPORT_MARGIN = 900"

definition RIGHT_VIEWPORT_MARGIN :: real where
  "RIGHT_VIEWPORT_MARGIN = 900"

definition BOTTOM_VIEWPORT_MARGIN :: real where
  "BOTTOM_VIEWPORT_MARGIN = 50"

definition TOP_VIEWPORT_MARGIN :: real where
  "TOP_VIEWPORT_MARGIN = 100"

definition DEAD_ZONE :: real where
  "DEAD_ZONE = 1 / 10"

definition DISTANCE_TO_CHANGE_TEXTURE :: real where
  "DISTANCE_TO_CHANGE_TEXTURE = 10"

text \<open>\<open>RIGHT_FACING = 0\<close> and \<open>LEFT_FACING = 1\<close>: the two values of the facing field,
  also the index into a texture pair.\<close>

datatype facing = RIGHT_FACING | LEFT_FACING

section \<open>Data\<close>

text \<open>The texture shown: which texture pair (or which walk frame) and which element of the pair.\<close>

datatype texture = Idle facing | Jump facing | Fall facing | Walk int facing

text \<open>
  \<open>PlayerSprite\<close>. The box fields are the extents of the hit box relative to the centre
  (taken from the idle texture when the sprite is built), from which the engine derives the
  sprite's \<open>left\<close>, \<open>right\<close>, \<open>bottom\<close> and \<open>top\<close>.
\<close>

record player_sprite =
  center_x :: real
  center_y :: real
  box_left :: real
  box_right :: real
  box_bottom :: real
  box_top :: real
  texture :: texture
  character_face_direction :: facing
  current_texture :: int
  x_odometer :: real

definition sprite_left :: "player_sprite \<Rightarrow> real" where
  "sprite_left p = center_x p + box_left p"

definition sprite_right :: "player_sprite \<Rightarrow> real" where
  "sprite_right p = center_x p + box_right p"

definition sprite_bottom :: "player_sprite \<Rightarrow> real" where
  "sprite_bottom p = center_y p + box_bottom p"

definition sprite_top :: "player_sprite \<Rightarrow> real" where
  "sprite_top p = center_y p + box_top p"

text \<open>A sprite built from a map tile is an object of the engine; it is known by its identity.\<close>

type_synonym tile_sprite = nat

text \<open>\<open>player_list\<close> holds a reference to the window's player sprite, not a copy of it.\<close>

datatype player_ref = Player_ref

record tile_map =
  map_width :: int
  platforms :: "tile_sprite list"
  dynamic_items :: "tile_sprite list"
  valuables :: "tile_sprite list"

text \<open>What \<open>GameWindow.setup\<close> registers with a physics engine, in the order of the calls.\<close>

datatype registration =
    Add_sprite real real string real real
  | Add_sprite_list "tile_sprite list" real string bool

record physics_engine =
  pe_damping :: real
  pe_gravity :: "real \<times> real"
  pe_added :: "registration list"

text \<open>\<open>GameWindow\<close>. The fields that \<open>__init__\<close> sets to \<open>None\<close> are options.\<close>

record game =
  player_sprite :: "player_sprite option"
  player_list :: "player_ref list option"
  wall_list :: "tile_sprite list option"
  item_list :: "tile_sprite list option"
  gem_list :: "tile_sprite list option"
  left_pressed :: bool
  right_pressed :: bool
  view_bottom :: real
  view_left :: real
  physics_engine :: "physics_engine option"
  level :: int
  end_of_map :: int

text \<open>
  The host engine, as far as the code reads it: the map resources (\<open>None\<close> where
  \<open>Maps/map<level>.tmx\<close> cannot be read), the hit box of the idle texture, and the
  collision test between the player and a tile sprite.
\<close>

record host =
  read_tmx :: "int \<Rightarrow> tile_map option"
  idle_box :: "real \<times> real \<times> real \<times> real"
  check_for_collision :: "player_sprite \<Rightarrow> tile_sprite \<Rightarrow> bool"

text \<open>
  What the physics engine reports during one update: the answer of \<open>is_on_ground\<close> at the
  start of the update, the displacement of the player in the step, and the answer of
  \<open>is_on_ground\<close> inside the \<open>pymunk_moved\<close> callback of that step.
\<close>

record tick_env =
  is_on_ground :: bool
  moved_dx :: real
  moved_dy :: real
  is_on_ground_after :: bool

text \<open>The calls into the host engine that have an effect outside the window object.\<close>

datatype call =
    Apply_force real real
  | Set_friction real
  | Apply_impulse real real
  | Read_tmx int
  | New_physics_engine
  | Set_viewport real real real real
  | Remove_from_sprite_lists tile_sprite
  | Play_sound
  | Step

datatype error = AttributeError | TypeError | MapError

datatype key = Key_LEFT | Key_A | Key_RIGHT | Key_D | Key_UP | Key_SPACE | Key_W | Key_other int

section \<open>PlayerSprite\<close>

definition PlayerSprite :: "host \<Rightarrow> player_sprite" where
  "PlayerSprite h =
     (case idle_box h of (l, r, b, t) \<Rightarrow>
        \<lparr>center_x = 0, center_y = 0,
         box_left = l, box_right = r, box_bottom = b, box_top = t,
         texture = Idle RIGHT_FACING,
         character_face_direction = RIGHT_FACING,
         current_texture = 0,
         x_odometer = 0\<rparr>)"

definition turn :: "real \<Rightarrow> facing \<Rightarrow> facing" where
  "turn dx f =
     (if dx < - DEAD_ZONE \<and> f = RIGHT_FACING then LEFT_FACING
      else if dx > DEAD_ZONE \<and> f = LEFT_FACING then RIGHT_FACING
      else f)"

definition pymunk_moved :: "bool \<Rightarrow> real \<Rightarrow> real \<Rightarrow> player_sprite \<Rightarrow> player_sprite" where
  "pymunk_moved on_ground dx dy p =
     (let f = turn dx (character_face_direction p);
          p1 = p\<lparr>character_face_direction := f, x_odometer := x_odometer p + dx\<rparr>
      in if \<not> on_ground \<and> dy > DEAD_ZONE then p1\<lparr>texture := Jump f\<rparr>
         else if \<not> on_ground \<and> dy < - DEAD_ZONE then p1\<lparr>texture := Fall f\<rparr>
         else if \<bar>dx\<bar> \<le> DEAD_ZONE then p1\<lparr>texture := Idle f\<rparr>
         else if \<bar>x_odometer p1\<bar> > DISTANCE_TO_CHANGE_TEXTURE then
           (let c = current_texture p1 + 1;
                c' = (if c > 7 then 0 else c)
            in p1\<lparr>x_odometer := 0, current_texture := c', texture := Walk c' f\<rparr>)
         else p1)"


section \<open>GameWindow\<close>

definition GameWindow :: game where
  "GameWindow =
     \<lparr>player_sprite = None, player_list = None, wall_list = None, item_list = None,
      gem_list = None, left_pressed = False, right_pressed = False,
      view_bottom = 0, view_left = 0, physics_engine = None, level = 1, end_of_map = 0\<rparr>"

definition spawn_x :: real where
  "spawn_x = real_of_int (SPRITE_SIZE * 2) + real_of_int SPRITE_SIZE / 2"

definition spawn_y :: real where
  "spawn_y = real_of_int (SPRITE_SIZE * 2) + real_of_int SPRITE_SIZE / 2"

definition new_engine :: "tile_map \<Rightarrow> physics_engine" where
  "new_engine m =
     \<lparr>pe_damping = DEFAULT_DAMPING, pe_gravity = (0, - GRAVITY),
      pe_added =
        [Add_sprite PLAYER_FRICTION PLAYER_MASS ''player''
           PLAYER_MAX_HORIZONTAL_SPEED PLAYER_MAX_VERTICAL_SPEED,
         Add_sprite_list (platforms m) WALL_FRICTION ''wall'' True,
         Add_sprite_list (dynamic_items m) DYNAMIC_ITEM_FRICTION ''item'' False,
         Add_sprite_list (valuables m) DYNAMIC_ITEM_FRICTION ''item'' False]\<rparr>"

text \<open>\<open>GameWindow.setup(level)\<close>. The two empty sprite lists made before the map is read
  are lost with the exception when the map cannot be read.\<close>

definition setup_level :: "host \<Rightarrow> int \<Rightarrow> game \<Rightarrow> error + game \<times> call list" where
  "setup_level h lvl g =
     (case read_tmx h lvl of
        None \<Rightarrow> Inl MapError
      | Some m \<Rightarrow>
          Inr (g\<lparr>player_list := Some [Player_ref],
                 gem_list := Some (valuables m),
                 end_of_map := map_width m * SCREEN_GRID_WIDTH + 800,
                 wall_list := Some (platforms m),
                 item_list := Some (dynamic_items m),
                 player_sprite := Some ((PlayerSprite h)\<lparr>center_x := spawn_x, center_y := spawn_y\<rparr>),
                 physics_engine := Some (new_engine m)\<rparr>,
               [Read_tmx lvl, New_physics_engine]))"

definition on_key_press :: "key \<Rightarrow> bool \<Rightarrow> game \<Rightarrow> error + game \<times> call list" where
  "on_key_press k on_ground g =
     (if k = Key_LEFT \<or> k = Key_A then Inr (g\<lparr>left_pressed := True\<rparr>, [])
      else if k = Key_RIGHT \<or> k = Key_D then Inr (g\<lparr>right_pressed := True\<rparr>, [])
      else if k = Key_UP \<or> k = Key_SPACE \<or> k = Key_W then
        (case physics_engine g of
           None \<Rightarrow> Inl AttributeError
         | Some e \<Rightarrow>
             if on_ground then Inr (g, [Apply_impulse 0 PLAYER_JUMP_IMPULSE])
             else Inr (g, []))
      else Inr (g, []))"

definition on_key_release :: "key \<Rightarrow> game \<Rightarrow> game" where
  "on_key_release k g =
     (if k = Key_LEFT \<or> k = Key_A then g\<lparr>left_pressed := False\<rparr>
      else if k = Key_RIGHT \<or> k = Key_D then g\<lparr>right_pressed := False\<rparr>
      else g)"

subsection \<open>The blocks of on_update\<close>

text \<open>UPDATE PLAYER FORCES: the calls made for the held keys and the ground flag.\<close>

definition update_player_forces :: "bool \<Rightarrow> bool \<Rightarrow> bool \<Rightarrow> call list" where
  "update_player_forces lp rp on_ground =
     (if lp \<and> \<not> rp then
        [Apply_force (if on_ground then - PLAYER_MOVE_FORCE_ON_GROUND
                      else - PLAYER_MOVE_FORCE_IN_AIR) 0,
         Set_friction 0]
      else if rp \<and> \<not> lp then
        [Apply_force (if on_ground then PLAYER_MOVE_FORCE_ON_GROUND
                      else PLAYER_MOVE_FORCE_IN_AIR) 0,
         Set_friction 0]
      else [Set_friction 1])"

text \<open>"See if the user got to the end of the level".\<close>

definition check_end_of_level :: "host \<Rightarrow> game \<Rightarrow> error + game \<times> call list" where
  "check_end_of_level h g =
     (case player_sprite g of
        None \<Rightarrow> Inl AttributeError
      | Some p \<Rightarrow>
          if center_x p \<ge> real_of_int (end_of_map g)
          then setup_level h (level g + 1) (g\<lparr>level := level g + 1\<rparr>)
          else Inr (g, []))"

text \<open>MANAGE SCREEN SCROLLING: the left and right checks, then the top and bottom checks;
  each returns the offset and whether it changed it.\<close>

definition scroll_horizontal :: "player_sprite \<Rightarrow> real \<Rightarrow> real \<times> bool" where
  "scroll_horizontal p vl =
     (let left_boundary = vl + LEFT_VIEWPORT_MARGIN;
          (vl1, ch1) = (if sprite_left p < left_boundary
                        then (vl - (left_boundary - sprite_left p), True)
                        else (vl, False));
          right_boundary = vl1 + SCREEN_WIDTH - RIGHT_VIEWPORT_MARGIN
      in if sprite_right p > right_boundary
         then (vl1 + (sprite_right p - right_boundary), True)
         else (vl1, ch1))"

definition scroll_vertical :: "player_sprite \<Rightarrow> real \<Rightarrow> real \<times> bool" where
  "scroll_vertical p vb =
     (let top_boundary = vb + SCREEN_HEIGHT - TOP_VIEWPORT_MARGIN;
          (vb1, ch1) = (if sprite_top p > top_boundary
                        then (vb + (sprite_top p - top_boundary), True)
                        else (vb, False));
          bottom_boundary = vb1 + BOTTOM_VIEWPORT_MARGIN
      in if sprite_bottom p < bottom_boundary
         then (vb1 - (bottom_boundary - sprite_bottom p), True)
         else (vb1, ch1))"

definition manage_screen_scrolling :: "game \<Rightarrow> error + game \<times> call list" where
  "manage_screen_scrolling g =
     (case player_sprite g of
        None \<Rightarrow> Inl AttributeError
      | Some p \<Rightarrow>
          (let (vl, chl) = scroll_horizontal p (view_left g);
               (vb, chb) = scroll_vertical p (view_bottom g)
           in if chl \<or> chb then
                (let vb' = real_of_int (py_int vb);
                     vl' = real_of_int (py_int vl)
                 in Inr (g\<lparr>view_bottom := vb', view_left := vl'\<rparr>,
                         [Set_viewport vl' (SCREEN_WIDTH + vl') vb' (SCREEN_HEIGHT + vb')]))
              else Inr (g\<lparr>view_bottom := vb, view_left := vl\<rparr>, [])))"

text \<open>"See if we hit any coins": the loop over the hit list.\<close>

fun remove_gems :: "tile_sprite list \<Rightarrow> tile_sprite list \<Rightarrow> tile_sprite list \<times> call list" where
  "remove_gems [] gl = (gl, [])"
| "remove_gems (gem # hits) gl =
     (case remove_gems hits (remove1 gem gl) of
        (gl', cs) \<Rightarrow> (gl', Remove_from_sprite_lists gem # Play_sound # cs))"

definition collect_gems :: "host \<Rightarrow> game \<Rightarrow> error + game \<times> call list" where
  "collect_gems h g =
     (case player_sprite g of
        None \<Rightarrow> Inl AttributeError
      | Some p \<Rightarrow>
          (case gem_list g of
             None \<Rightarrow> Inl TypeError
           | Some gl \<Rightarrow>
               (case remove_gems (filter (check_for_collision h p) gl) gl of
                  (gl', cs) \<Rightarrow> Inr (g\<lparr>gem_list := Some gl'\<rparr>, cs))))"

text \<open>
  \<open>physics_engine.step()\<close>: the engine moves the player's sprite by the displacement of the
  step and calls its \<open>pymunk_moved\<close> with that displacement.
\<close>

definition physics_step :: "tick_env \<Rightarrow> game \<Rightarrow> error + game \<times> call list" where
  "physics_step env g =
     (case player_sprite g of
        None \<Rightarrow> Inl AttributeError
      | Some p \<Rightarrow>
          Inr (g\<lparr>player_sprite :=
                   Some (pymunk_moved (is_on_ground_after env) (moved_dx env) (moved_dy env)
                          (p\<lparr>center_x := center_x p + moved_dx env,
                             center_y := center_y p + moved_dy env\<rparr>))\<rparr>,
               [Step]))"

text \<open>Sequencing of two blocks: the second runs on the state the first leaves, and an
  exception of either ends the update.\<close>

definition and_then ::
  "(error + game \<times> call list) \<Rightarrow> (game \<Rightarrow> error + game \<times> call list) \<Rightarrow> error + game \<times> call list" where
  "and_then r f =
     (case r of
        Inl e \<Rightarrow> Inl e
      | Inr (g, cs) \<Rightarrow>
          (case f g of
             Inl e \<Rightarrow> Inl e
           | Inr (g', cs') \<Rightarrow> Inr (g', cs @ cs')))"

definition on_update :: "host \<Rightarrow> tick_env \<Rightarrow> game \<Rightarrow> error + game \<times> call list" where
  "on_update h env g =
     (case physics_engine g of
        None \<Rightarrow> Inl AttributeError
      | Some e \<Rightarrow>
          and_then
            (and_then
              (and_then
                (and_then
                  (Inr (g, update_player_forces (left_pressed g) (right_pressed g) (is_on_ground env)))
                  (check_end_of_level h))
                manage_screen_scrolling)
              (collect_gems h))
            (physics_step env))"

subsection \<open>Runs of the window\<close>

datatype input = Key_press key bool | Key_release key | Update tick_env

fun handle :: "host \<Rightarrow> input \<Rightarrow> game \<Rightarrow> error + game \<times> call list" where
  "handle h (Key_press k on_ground) g = on_key_press k on_ground g"
| "handle h (Key_release k) g = Inr (on_key_release k g, [])"
| "handle h (Update env) g = on_update h env g"

fun run :: "host \<Rightarrow> input list \<Rightarrow> game \<Rightarrow> error + game \<times> call list" where
  "run h [] g = Inr (g, [])"
| "run h (i # is) g = and_then (handle h i g) (run h is)"

text \<open>\<open>main\<close>: the window is built and level 1 is set up.\<close>

definition main :: "host \<Rightarrow> error + game \<times> call list" where
  "main h = setup_level h (level GameWindow) GameWindow"

subsection \<open>Reading results\<close>

definition calls_of :: "error + game \<times> call list \<Rightarrow> call list" where
  "calls_of r = (case r of Inl e \<Rightarrow> [] | Inr (g, cs) \<Rightarrow> cs)"

definition gems :: "game \<Rightarrow> tile_sprite list" where
  "gems g = (case gem_list g of None \<Rightarrow> [] | Some gl \<Rightarrow> gl)"

text \<open>The block of \<open>on_update\<close> that a call belongs to.\<close>

fun block_of :: "call \<Rightarrow> nat" where
  "block_of (Apply_force x y) = 1"
| "block_of (Set_friction f) = 1"
| "block_of (Read_tmx l) = 2"
| "block_of New_physics_engine = 2"
| "block_of (Set_viewport l r b t) = 3"
| "block_of (Remove_from_sprite_lists s) = 4"
| "block_of Play_sound = 4"
| "block_of Step = 5"
| "block_of (Apply_impulse x y) = 0"

definition game_of :: "error + game \<times> call list \<Rightarrow> game option" where
  "game_of r = (case r of Inl e \<Rightarrow> None | Inr (g, cs) \<Rightarrow> Some g)"

fun is_impulse :: "call \<Rightarrow> bool" where
  "is_impulse (Apply_impulse x y) = True"
| "is_impulse c = False"

text \<open>A press of a jump key while the engine reports ground contact.\<close>

fun grounded_jump :: "input \<Rightarrow> bool" where
  "grounded_jump (Key_press k on_ground) =
     (on_ground \<and> (k = Key_UP \<or> k = Key_SPACE \<or> k = Key_W))"
| "grounded_jump i = False"

section \<open>An example game\<close>

text \<open>
  Two maps and a host that has only these two (\<open>example_host_last\<close> has only the first); a
  tile sprite \<open>s\<close> stands at \<open>x = 100 * s\<close> and touches the player within 40 pixels.
  \<open>example_game_at x\<close> is level 1 as set up, with the player at \<open>x\<close>; at \<open>x = 162.5\<close>
  it is the window that \<open>main\<close> leaves. \<open>example_game_next\<close> is that window after an update
  with \<open>example_env\<close>, \<open>example_game_jumped\<close> after an update with \<open>example_jump_env\<close>,
  whose step lifts the player past the top margin at once.
\<close>

definition example_map1 :: tile_map where
  "example_map1 = \<lparr>map_width = 10, platforms = [0, 1], dynamic_items = [6], valuables = [2, 5, 9]\<rparr>"

definition example_map2 :: tile_map where
  "example_map2 = \<lparr>map_width = 20, platforms = [10, 11], dynamic_items = [], valuables = [12, 2]\<rparr>"

definition example_host :: host where
  "example_host =
     \<lparr>read_tmx = (\<lambda>l. if l = 1 then Some example_map1 else if l = 2 then Some example_map2 else None),
      idle_box = (- 22, 22, - 32, 32),
      check_for_collision = (\<lambda>p s. \<bar>center_x p - 100 * real s\<bar> \<le> 40)\<rparr>"

definition example_env :: tick_env where
  "example_env = \<lparr>is_on_ground = True, moved_dx = 20, moved_dy = 0, is_on_ground_after = True\<rparr>"

definition example_game_at :: "real \<Rightarrow> game" where
  "example_game_at x =
     \<lparr>player_sprite = Some ((PlayerSprite example_host)\<lparr>center_x := x, center_y := spawn_y\<rparr>),
      player_list = Some [Player_ref], wall_list = Some (platforms example_map1),
      item_list = Some (dynamic_items example_map1), gem_list = Some (valuables example_map1),
      left_pressed = False, right_pressed = False, view_bottom = 0, view_left = 0,
      physics_engine = Some (new_engine example_map1), level = 1, end_of_map = 1100\<rparr>"

definition example_jump_env :: tick_env where
  "example_jump_env = \<lparr>is_on_ground = False, moved_dx = 20, moved_dy = 900, is_on_ground_after = False\<rparr>"

definition example_host_last :: host where
  "example_host_last = example_host\<lparr>read_tmx := (\<lambda>l. if l = 1 then Some example_map1 else None)\<rparr>"

definition example_game_next :: game where
  "example_game_next =
     (example_game_at (365 / 2))
       \<lparr>player_sprite := Some ((PlayerSprite example_host)
          \<lparr>center_x := 365 / 2, center_y := spawn_y, texture := Walk 1 RIGHT_FACING,
           current_texture := 1\<rparr>),
        gem_list := Some [5, 9], view_left := - 759\<rparr>"

definition example_game_jumped :: game where
  "example_game_jumped =
     (example_game_at (365 / 2))
       \<lparr>player_sprite := Some ((PlayerSprite example_host)
          \<lparr>center_x := 365 / 2, center_y := 2125 / 2, texture := Jump RIGHT_FACING,
           x_odometer := 20\<rparr>),
        gem_list := Some [5, 9], view_left := - 759\<rparr>"

section \<open>Facts about the blocks of on_update\<close>

lemma and_then_Inr:
  "and_then r f = Inr (g', cs) \<longleftrightarrow>
     (\<exists>g1 c1 c2. r = Inr (g1, c1) \<and> f g1 = Inr (g', c2) \<and> cs = c1 @ c2)"
  by (auto simp: and_then_def split: sum.splits prod.splits)

lemma on_update_blocks:
  assumes "on_update h env g = Inr (g', cs)"
  shows "\<exists>e g1 c1 g2 c2 g3 c3.
           physics_engine g = Some e \<and>
           check_end_of_level h g = Inr (g1, c1) \<and>
           manage_screen_scrolling g1 = Inr (g2, c2) \<and>
           collect_gems h g2 = Inr (g3, c3) \<and>
           physics_step env g3 = Inr (g', [Step]) \<and>
           cs = update_player_forces (left_pressed g) (right_pressed g) (is_on_ground env)
                @ c1 @ c2 @ c3 @ [Step]"
proof -
  from assms obtain e where e: "physics_engine g = Some e"
    by (auto simp: on_update_def split: option.splits)
  from assms e obtain g3 c123 c4 where
    a: "and_then (and_then (and_then
          (Inr (g, update_player_forces (left_pressed g) (right_pressed g) (is_on_ground env)))
          (check_end_of_level h)) manage_screen_scrolling) (collect_gems h) = Inr (g3, c123)"
    and s: "physics_step env g3 = Inr (g', c4)" and cs: "cs = c123 @ c4"
    by (auto simp: on_update_def and_then_Inr)
  from s have c4: "c4 = [Step]"
    by (auto simp: physics_step_def split: option.splits)
  from a obtain g2 c12 c3 where
    b: "and_then (and_then
          (Inr (g, update_player_forces (left_pressed g) (right_pressed g) (is_on_ground env)))
          (check_end_of_level h)) manage_screen_scrolling = Inr (g2, c12)"
    and c: "collect_gems h g2 = Inr (g3, c3)" and c123: "c123 = c12 @ c3"
    by (auto simp: and_then_Inr)
  from b obtain g1 c0 c2 where
    d: "and_then
          (Inr (g, update_player_forces (left_pressed g) (right_pressed g) (is_on_ground env)))
          (check_end_of_level h) = Inr (g1, c0)"
    and m: "manage_screen_scrolling g1 = Inr (g2, c2)" and c12: "c12 = c0 @ c2"
    by (auto simp: and_then_Inr)
  from d obtain c1 where
    l: "check_end_of_level h g = Inr (g1, c1)"
    and c0: "c0 = update_player_forces (left_pressed g) (right_pressed g) (is_on_ground env) @ c1"
    by (auto simp: and_then_Inr)
  from e l m c s cs c4 c123 c12 c0 show ?thesis by auto
qed

lemma forces_block: "c \<in> set (update_player_forces l r b) \<Longrightarrow> block_of c = 1"
  by (auto simp: update_player_forces_def split: if_splits)

lemma setup_level_calls:
  "setup_level h l g = Inr (g', cs) \<Longrightarrow> cs = [Read_tmx l, New_physics_engine]"
  by (auto simp: setup_level_def split: option.splits)

lemma level_block: "check_end_of_level h g = Inr (g', cs) \<Longrightarrow> c \<in> set cs \<Longrightarrow> block_of c = 2"
  by (auto simp: check_end_of_level_def split: option.splits if_splits dest!: setup_level_calls)

lemma scrolling_block: "manage_screen_scrolling g = Inr (g', cs) \<Longrightarrow> c \<in> set cs \<Longrightarrow> block_of c = 3"
  by (auto simp: manage_screen_scrolling_def Let_def split: option.splits if_splits prod.splits)

lemma remove_gems_block: "remove_gems hits gl = (gl', cs) \<Longrightarrow> c \<in> set cs \<Longrightarrow> block_of c = 4"
  by (induction hits arbitrary: gl gl' cs) (auto split: prod.splits)

lemma gems_block: "collect_gems h g = Inr (g', cs) \<Longrightarrow> c \<in> set cs \<Longrightarrow> block_of c = 4"
  by (auto simp: collect_gems_def split: option.splits prod.splits dest: remove_gems_block)

lemma forces_nonempty: "update_player_forces l r b \<noteq> []"
  by (simp add: update_player_forces_def)

lemma sorted_block_prefix:
  assumes "\<And>x. x \<in> set xs \<Longrightarrow> block_of x = n"
    and "sorted (map block_of ys)"
    and "\<And>y. y \<in> set ys \<Longrightarrow> n \<le> block_of y"
  shows "sorted (map block_of (xs @ ys))"
  using assms by (induction xs) auto

lemma setup_level_frame:
  "setup_level h l g = Inr (g', cs) \<Longrightarrow>
   view_left g' = view_left g \<and> view_bottom g' = view_bottom g \<and>
   left_pressed g' = left_pressed g \<and> right_pressed g' = right_pressed g \<and> level g' = level g"
  by (auto simp: setup_level_def split: option.splits)

lemma check_end_of_level_frame:
  "check_end_of_level h g = Inr (g', cs) \<Longrightarrow>
   view_left g' = view_left g \<and> view_bottom g' = view_bottom g \<and>
   left_pressed g' = left_pressed g \<and> right_pressed g' = right_pressed g"
  by (auto simp: check_end_of_level_def split: option.splits if_splits dest!: setup_level_frame)

lemma manage_screen_scrolling_frame:
  "manage_screen_scrolling g = Inr (g', cs) \<Longrightarrow>
   left_pressed g' = left_pressed g \<and> right_pressed g' = right_pressed g \<and>
   level g' = level g \<and> gem_list g' = gem_list g \<and> player_sprite g' = player_sprite g \<and>
   end_of_map g' = end_of_map g \<and> wall_list g' = wall_list g \<and> item_list g' = item_list g \<and>
   physics_engine g' = physics_engine g"
  by (auto simp: manage_screen_scrolling_def Let_def split: option.splits if_splits prod.splits)

lemma collect_gems_frame:
  "collect_gems h g = Inr (g', cs) \<Longrightarrow>
   view_left g' = view_left g \<and> view_bottom g' = view_bottom g \<and>
   left_pressed g' = left_pressed g \<and> right_pressed g' = right_pressed g \<and>
   level g' = level g \<and> player_sprite g' = player_sprite g \<and>
   end_of_map g' = end_of_map g \<and> wall_list g' = wall_list g \<and> item_list g' = item_list g \<and>
   physics_engine g' = physics_engine g"
  by (auto simp: collect_gems_def split: option.splits prod.splits)

lemma physics_step_frame:
  "physics_step env g = Inr (g', cs) \<Longrightarrow>
   view_left g' = view_left g \<and> view_bottom g' = view_bottom g \<and>
   left_pressed g' = left_pressed g \<and> right_pressed g' = right_pressed g \<and>
   level g' = level g \<and> gem_list g' = gem_list g \<and>
   end_of_map g' = end_of_map g \<and> wall_list g' = wall_list g \<and> item_list g' = item_list g \<and>
   physics_engine g' = physics_engine g"
  by (auto simp: physics_step_def split: option.splits)

lemma on_key_press_view:
  "on_key_press k b g = Inr (g', cs) \<Longrightarrow>
   view_left g' = view_left g \<and> view_bottom g' = view_bottom g \<and> level g' = level g \<and>
   gem_list g' = gem_list g"
  by (auto simp: on_key_press_def split: if_splits option.splits)

lemma on_key_release_view:
  "view_left (on_key_release k g) = view_left g \<and> view_bottom (on_key_release k g) = view_bottom g \<and>
   level (on_key_release k g) = level g \<and> gem_list (on_key_release k g) = gem_list g"
  by (simp add: on_key_release_def)

lemma scroll_horizontal_unchanged: "\<not> snd (scroll_horizontal p vl) \<Longrightarrow> fst (scroll_horizontal p vl) = vl"
  by (auto simp: scroll_horizontal_def Let_def split: if_splits)

lemma scroll_vertical_unchanged: "\<not> snd (scroll_vertical p vb) \<Longrightarrow> fst (scroll_vertical p vb) = vb"
  by (auto simp: scroll_vertical_def Let_def split: if_splits)

lemma scroll_horizontal_inside:
  "vl + LEFT_VIEWPORT_MARGIN \<le> sprite_left p \<Longrightarrow>
   sprite_right p \<le> vl + SCREEN_WIDTH - RIGHT_VIEWPORT_MARGIN \<Longrightarrow>
   scroll_horizontal p vl = (vl, False)"
  by (simp add: scroll_horizontal_def Let_def)

lemma scroll_vertical_inside:
  "sprite_top p \<le> vb + SCREEN_HEIGHT - TOP_VIEWPORT_MARGIN \<Longrightarrow>
   vb + BOTTOM_VIEWPORT_MARGIN \<le> sprite_bottom p \<Longrightarrow>
   scroll_vertical p vb = (vb, False)"
  by (simp add: scroll_vertical_def Let_def)

lemma py_int_of_int: "x \<in> \<int> \<Longrightarrow> real_of_int (py_int x) = x"
  by (auto simp: py_int_def elim!: Ints_cases)

lemma manage_screen_scrolling_result:
  assumes "manage_screen_scrolling g = Inr (g', cs)" and "player_sprite g = Some p"
  shows "(cs = [] \<and> view_left g' = view_left g \<and> view_bottom g' = view_bottom g \<and>
            \<not> snd (scroll_horizontal p (view_left g)) \<and> \<not> snd (scroll_vertical p (view_bottom g)))
         \<or> (cs = [Set_viewport (view_left g') (SCREEN_WIDTH + view_left g')
                    (view_bottom g') (SCREEN_HEIGHT + view_bottom g')] \<and>
            view_left g' = real_of_int (py_int (fst (scroll_horizontal p (view_left g)))) \<and>
            view_bottom g' = real_of_int (py_int (fst (scroll_vertical p (view_bottom g)))) \<and>
            (snd (scroll_horizontal p (view_left g)) \<or> snd (scroll_vertical p (view_bottom g))))"
proof (cases "snd (scroll_horizontal p (view_left g)) \<or> snd (scroll_vertical p (view_bottom g))")
  case True
  with assms show ?thesis
    by (auto simp: manage_screen_scrolling_def Let_def split: prod.splits)
next
  case False
  then have "fst (scroll_horizontal p (view_left g)) = view_left g"
    "fst (scroll_vertical p (view_bottom g)) = view_bottom g"
    by (simp_all add: scroll_horizontal_unchanged scroll_vertical_unchanged)
  with assms False show ?thesis
    by (auto simp: manage_screen_scrolling_def Let_def split: prod.splits)
qed

lemma manage_screen_scrolling_Ints:
  assumes "manage_screen_scrolling g = Inr (g', cs)"
    and "view_left g \<in> \<int>" and "view_bottom g \<in> \<int>"
  shows "view_left g' \<in> \<int> \<and> view_bottom g' \<in> \<int>"
proof -
  from assms(1) obtain p where p: "player_sprite g = Some p"
    by (auto simp: manage_screen_scrolling_def split: option.splits)
  from manage_screen_scrolling_result [OF assms(1) p] assms(2,3) show ?thesis
    by auto
qed

lemma on_update_view:
  assumes "on_update h env g = Inr (g', cs)"
  shows "\<exists>g1 c1 p g2 c2. check_end_of_level h g = Inr (g1, c1) \<and> player_sprite g1 = Some p \<and>
           view_left g1 = view_left g \<and> view_bottom g1 = view_bottom g \<and>
           manage_screen_scrolling g1 = Inr (g2, c2) \<and>
           view_left g' = view_left g2 \<and> view_bottom g' = view_bottom g2 \<and>
           (\<forall>l r b t. Set_viewport l r b t \<in> set cs \<longleftrightarrow> Set_viewport l r b t \<in> set c2)"
proof -
  from on_update_blocks [OF assms] obtain g1 c1 g2 c2 g3 c3 where
    l: "check_end_of_level h g = Inr (g1, c1)"
    and m: "manage_screen_scrolling g1 = Inr (g2, c2)"
    and c: "collect_gems h g2 = Inr (g3, c3)"
    and s: "physics_step env g3 = Inr (g', [Step])"
    and cs: "cs = update_player_forces (left_pressed g) (right_pressed g) (is_on_ground env)
                @ c1 @ c2 @ c3 @ [Step]"
    by blast
  from m obtain p where p: "player_sprite g1 = Some p"
    by (auto simp: manage_screen_scrolling_def split: option.splits)
  have v: "\<forall>l r b t. Set_viewport l r b t \<in> set cs \<longleftrightarrow> Set_viewport l r b t \<in> set c2"
    unfolding cs
    using forces_block [of _ "left_pressed g" "right_pressed g" "is_on_ground env"]
      level_block [OF l] gems_block [OF c]
    by fastforce
  from l p m v check_end_of_level_frame [OF l] collect_gems_frame [OF c] physics_step_frame [OF s]
  show ?thesis by auto
qed

lemma on_update_Ints:
  assumes "on_update h env g = Inr (g', cs)"
    and "view_left g \<in> \<int>" and "view_bottom g \<in> \<int>"
  shows "view_left g' \<in> \<int> \<and> view_bottom g' \<in> \<int>"
proof -
  from on_update_view [OF assms(1)] obtain g1 g2 c2 where
    "view_left g1 = view_left g" "view_bottom g1 = view_bottom g"
    "manage_screen_scrolling g1 = Inr (g2, c2)"
    "view_left g' = view_left g2" "view_bottom g' = view_bottom g2"
    by blast
  with manage_screen_scrolling_Ints [of g1 g2 c2] assms(2,3) show ?thesis by simp
qed

lemma handle_Ints:
  assumes "handle h i g = Inr (g', cs)"
    and "view_left g \<in> \<int>" and "view_bottom g \<in> \<int>"
  shows "view_left g' \<in> \<int> \<and> view_bottom g' \<in> \<int>"
proof (cases i)
  case (Key_press k b)
  with assms on_key_press_view [of k b g g' cs] show ?thesis by simp
next
  case (Key_release k)
  with assms on_key_release_view [of k g] show ?thesis by auto
next
  case (Update env)
  with assms on_update_Ints [of h env g g' cs] show ?thesis by simp
qed

lemma run_Ints:
  "run h ins g = Inr (g', cs) \<Longrightarrow> view_left g \<in> \<int> \<Longrightarrow> view_bottom g \<in> \<int> \<Longrightarrow>
   view_left g' \<in> \<int> \<and> view_bottom g' \<in> \<int>"
proof (induction ins arbitrary: g cs)
  case Nil
  then show ?case by simp
next
  case (Cons i ins)
  from Cons.prems(1) obtain g1 c1 c2 where
    h: "handle h i g = Inr (g1, c1)" and r: "run h ins g1 = Inr (g', c2)"
    by (auto simp: and_then_Inr)
  from handle_Ints [OF h Cons.prems(2,3)] have "view_left g1 \<in> \<int>" "view_bottom g1 \<in> \<int>"
    by simp_all
  from Cons.IH [OF r this] show ?case .
qed

lemma main_Ints: "main h = Inr (g, cs) \<Longrightarrow> view_left g \<in> \<int> \<and> view_bottom g \<in> \<int>"
  by (auto simp: main_def GameWindow_def dest!: setup_level_frame)

lemma impulse_block: "is_impulse c \<Longrightarrow> block_of c = 0"
  by (cases c) simp_all

lemma on_update_no_impulse:
  assumes "on_update h env g = Inr (g', cs)"
  shows "filter is_impulse cs = []"
proof -
  from on_update_blocks [OF assms] obtain g1 c1 g2 c2 g3 c3 where
    l: "check_end_of_level h g = Inr (g1, c1)"
    and m: "manage_screen_scrolling g1 = Inr (g2, c2)"
    and c: "collect_gems h g2 = Inr (g3, c3)"
    and cs: "cs = update_player_forces (left_pressed g) (right_pressed g) (is_on_ground env)
                @ c1 @ c2 @ c3 @ [Step]"
    by blast
  have "\<forall>x \<in> set cs. block_of x \<noteq> 0"
    unfolding cs
    using forces_block [of _ "left_pressed g" "right_pressed g" "is_on_ground env"]
      level_block [OF l] scrolling_block [OF m] gems_block [OF c]
    by fastforce
  then have "\<forall>x \<in> set cs. \<not> is_impulse x"
    using impulse_block by blast
  then show ?thesis by (simp add: filter_empty_conv)
qed

lemma on_key_press_impulse:
  "on_key_press k b g = Inr (g', cs) \<Longrightarrow>
   filter is_impulse cs =
     (if grounded_jump (Key_press k b) then [Apply_impulse 0 PLAYER_JUMP_IMPULSE] else [])"
  by (auto simp: on_key_press_def split: if_splits option.splits)

lemma handle_impulse:
  assumes "handle h i g = Inr (g', cs)"
  shows "filter is_impulse cs = (if grounded_jump i then [Apply_impulse 0 PLAYER_JUMP_IMPULSE] else [])"
proof (cases i)
  case (Key_press k b)
  with assms on_key_press_impulse [of k b g g' cs] show ?thesis by simp
next
  case (Key_release k)
  with assms show ?thesis by auto
next
  case (Update env)
  with assms on_update_no_impulse [of h env g g' cs] show ?thesis by simp
qed

lemma run_impulses:
  "run h ins g = Inr (g', cs) \<Longrightarrow>
   filter is_impulse cs =
     replicate (length (filter grounded_jump ins)) (Apply_impulse 0 PLAYER_JUMP_IMPULSE)"
proof (induction ins arbitrary: g cs)
  case Nil
  then show ?case by simp
next
  case (Cons i ins)
  from Cons.prems obtain g1 c1 c2 where
    h: "handle h i g = Inr (g1, c1)" and r: "run h ins g1 = Inr (g', c2)" and cs: "cs = c1 @ c2"
    by (auto simp: and_then_Inr)
  from handle_impulse [OF h] Cons.IH [OF r] cs show ?case by simp
qed

lemma remove_gems_calls:
  "snd (remove_gems hits gl) = concat (map (\<lambda>s. [Remove_from_sprite_lists s, Play_sound]) hits)"
  by (induction hits arbitrary: gl) (simp_all add: case_prod_beta)

lemma remove_gems_list: "fst (remove_gems hits gl) = fold remove1 hits gl"
  by (induction hits arbitrary: gl) (simp_all add: case_prod_beta)

lemma fold_remove1_filter:
  "\<forall>x \<in> set pre. \<not> P x \<Longrightarrow>
   fold remove1 (filter P xs) (pre @ xs) = pre @ filter (\<lambda>x. \<not> P x) xs"
proof (induction xs arbitrary: pre)
  case Nil
  then show ?case by simp
next
  case (Cons x xs)
  show ?case
  proof (cases "P x")
    case True
    with Cons.prems have "x \<notin> set pre" by blast
    then have "remove1 x (pre @ x # xs) = pre @ xs" by (simp add: remove1_append)
    with True Cons.IH [OF Cons.prems] show ?thesis by simp
  next
    case False
    with Cons.prems have "\<forall>y \<in> set (pre @ [x]). \<not> P y" by simp
    from Cons.IH [OF this] False show ?thesis by simp
  qed
qed

lemma remove_gems_filter:
  "remove_gems (filter P gl) gl =
     (filter (\<lambda>s. \<not> P s) gl,
      concat (map (\<lambda>s. [Remove_from_sprite_lists s, Play_sound]) (filter P gl)))"
  using fold_remove1_filter [of "[]" P gl]
  by (simp add: prod_eq_iff remove_gems_calls remove_gems_list)

lemma collect_gems_result:
  assumes "collect_gems h g = Inr (g', cs)" and "player_sprite g = Some p"
  shows "gems g' = filter (\<lambda>s. \<not> check_for_collision h p s) (gems g) \<and>
         cs = concat (map (\<lambda>s. [Remove_from_sprite_lists s, Play_sound])
                (filter (check_for_collision h p) (gems g)))"
  using assms
  by (auto simp: collect_gems_def gems_def remove_gems_filter split: option.splits)

lemma count_pickups:
  "count_list (concat (map (\<lambda>s. [Remove_from_sprite_lists s, Play_sound]) hits)) Play_sound
     = length hits"
  "count_list (concat (map (\<lambda>s. [Remove_from_sprite_lists s, Play_sound]) hits))
     (Remove_from_sprite_lists t) = count_list hits t"
  by (induction hits) auto

lemma count_list_distinct_filter:
  "distinct xs \<Longrightarrow> x \<in> set xs \<Longrightarrow> count_list (filter P xs) x = (if P x then 1 else 0)"
  by (induction xs) (auto simp: count_list_0_iff)

lemma count_other_blocks: "\<forall>c \<in> set cs. block_of c \<noteq> 4 \<Longrightarrow>
   count_list cs Play_sound = 0 \<and> count_list cs (Remove_from_sprite_lists t) = 0"
  by (force simp: count_list_0_iff)

lemma setup_level_result:
  assumes "read_tmx h l = Some m"
  shows "\<exists>g'. setup_level h l g = Inr (g', [Read_tmx l, New_physics_engine]) \<and>
           level g' = level g \<and>
           end_of_map g' = map_width m * 30 + 800 \<and>
           wall_list g' = Some (platforms m) \<and> item_list g' = Some (dynamic_items m) \<and>
           gem_list g' = Some (valuables m) \<and> physics_engine g' = Some (new_engine m) \<and>
           player_list g' = Some [Player_ref] \<and>
           player_sprite g' = Some ((PlayerSprite h)\<lparr>center_x := spawn_x, center_y := spawn_y\<rparr>)"
  using assms by (simp add: setup_level_def SCREEN_GRID_WIDTH_def)

lemma setup_level_error: "read_tmx h l = None \<Longrightarrow> setup_level h l g = Inl MapError"
  by (simp add: setup_level_def)

lemma check_end_of_level_stay:
  "player_sprite g = Some p \<Longrightarrow> center_x p < real_of_int (end_of_map g) \<Longrightarrow>
   check_end_of_level h g = Inr (g, [])"
  by (simp add: check_end_of_level_def)

lemma check_end_of_level_go:
  "player_sprite g = Some p \<Longrightarrow> real_of_int (end_of_map g) \<le> center_x p \<Longrightarrow>
   check_end_of_level h g = setup_level h (level g + 1) (g\<lparr>level := level g + 1\<rparr>)"
  by (simp add: check_end_of_level_def)

lemma check_end_of_level_level:
  assumes "check_end_of_level h g = Inr (g1, c1)" and "player_sprite g = Some p"
  shows "level g1 = (if real_of_int (end_of_map g) \<le> center_x p then level g + 1 else level g)"
proof (cases "real_of_int (end_of_map g) \<le> center_x p")
  case True
  with assms check_end_of_level_go [OF assms(2) True, of h]
    setup_level_frame [of h "level g + 1" "g\<lparr>level := level g + 1\<rparr>" g1 c1]
  show ?thesis by simp
next
  case False
  with assms check_end_of_level_stay [OF assms(2), of h] show ?thesis by simp
qed

lemma on_update_level:
  assumes "on_update h env g = Inr (g', cs)" and "player_sprite g = Some p"
  shows "level g' = (if real_of_int (end_of_map g) \<le> center_x p then level g + 1 else level g)"
proof -
  from on_update_blocks [OF assms(1)] obtain g1 c1 g2 c2 g3 c3 where
    l: "check_end_of_level h g = Inr (g1, c1)"
    and m: "manage_screen_scrolling g1 = Inr (g2, c2)"
    and c: "collect_gems h g2 = Inr (g3, c3)"
    and s: "physics_step env g3 = Inr (g', [Step])"
    by blast
  from manage_screen_scrolling_frame [OF m] collect_gems_frame [OF c] physics_step_frame [OF s]
  have "level g' = level g1" by simp
  with check_end_of_level_level [OF l assms(2)] show ?thesis by simp
qed

lemma manage_screen_scrolling_total:
  "player_sprite g = Some p \<Longrightarrow> \<exists>g' cs. manage_screen_scrolling g = Inr (g', cs)"
  by (simp add: manage_screen_scrolling_def Let_def split: prod.splits)

lemma collect_gems_total:
  "player_sprite g = Some p \<Longrightarrow> gem_list g = Some gl \<Longrightarrow> \<exists>g' cs. collect_gems h g = Inr (g', cs)"
  by (simp add: collect_gems_def split: prod.splits)

lemma physics_step_total:
  "player_sprite g = Some p \<Longrightarrow> \<exists>g'. physics_step env g = Inr (g', [Step])"
  by (simp add: physics_step_def)

lemma on_update_total:
  assumes e: "physics_engine g = Some e"
    and l: "check_end_of_level h g = Inr (g1, c1)"
    and p: "player_sprite g1 = Some p1" and gl: "gem_list g1 = Some gl"
  shows "\<exists>g' cs. on_update h env g = Inr (g', cs)"
proof -
  from manage_screen_scrolling_total [OF p] obtain g2 c2 where
    m: "manage_screen_scrolling g1 = Inr (g2, c2)" by blast
  from manage_screen_scrolling_frame [OF m] p gl
  have p2: "player_sprite g2 = Some p1" and gl2: "gem_list g2 = Some gl" by simp_all
  from collect_gems_total [OF p2 gl2] obtain g3 c3 where
    c: "collect_gems h g2 = Inr (g3, c3)" by blast
  from collect_gems_frame [OF c] p2 have p3: "player_sprite g3 = Some p1" by simp
  from physics_step_total [OF p3] obtain g' where s: "physics_step env g3 = Inr (g', [Step])"
    by blast
  from e l m c s show ?thesis
    by (simp add: on_update_def and_then_def)
qed

lemma on_update_error:
  "physics_engine g = Some e \<Longrightarrow> check_end_of_level h g = Inl x \<Longrightarrow> on_update h env g = Inl x"
  by (simp add: on_update_def and_then_def)

lemma on_update_world:
  assumes u: "on_update h env g = Inr (g', cs)"
    and l: "check_end_of_level h g = Inr (g1, c1)" and p: "player_sprite g1 = Some p1"
  shows "level g' = level g1 \<and> end_of_map g' = end_of_map g1 \<and> wall_list g' = wall_list g1 \<and>
         item_list g' = item_list g1 \<and> physics_engine g' = physics_engine g1 \<and>
         gems g' = filter (\<lambda>s. \<not> check_for_collision h p1 s) (gems g1) \<and>
         count_list cs Play_sound = length (filter (check_for_collision h p1) (gems g1)) \<and>
         (\<forall>s. count_list cs (Remove_from_sprite_lists s)
                = count_list (filter (check_for_collision h p1) (gems g1)) s) \<and>
         player_sprite g' =
           Some (pymunk_moved (is_on_ground_after env) (moved_dx env) (moved_dy env)
                   (p1\<lparr>center_x := center_x p1 + moved_dx env,
                       center_y := center_y p1 + moved_dy env\<rparr>))"
proof -
  from on_update_blocks [OF u] l obtain g2 c2 g3 c3 where
    m: "manage_screen_scrolling g1 = Inr (g2, c2)"
    and c: "collect_gems h g2 = Inr (g3, c3)"
    and s: "physics_step env g3 = Inr (g', [Step])"
    and cs: "cs = update_player_forces (left_pressed g) (right_pressed g) (is_on_ground env)
                @ c1 @ c2 @ c3 @ [Step]"
    by auto
  let ?f = "update_player_forces (left_pressed g) (right_pressed g) (is_on_ground env)"
  from manage_screen_scrolling_frame [OF m] p
  have p2: "player_sprite g2 = Some p1" and g2: "gems g2 = gems g1" by (simp_all add: gems_def)
  from collect_gems_result [OF c p2] g2
  have g3: "gems g3 = filter (\<lambda>s. \<not> check_for_collision h p1 s) (gems g1)"
    and c3: "c3 = concat (map (\<lambda>s. [Remove_from_sprite_lists s, Play_sound])
                (filter (check_for_collision h p1) (gems g1)))"
    by simp_all
  from collect_gems_frame [OF c] p2 have p3: "player_sprite g3 = Some p1" by simp
  from physics_step_frame [OF s] have g': "gems g' = gems g3" by (simp add: gems_def)
  have o: "\<forall>x \<in> set (?f @ c1 @ c2 @ [Step]). block_of x \<noteq> 4"
    using forces_block [of _ "left_pressed g" "right_pressed g" "is_on_ground env"]
      level_block [OF l] scrolling_block [OF m]
    by fastforce
  have cnt: "\<And>x. count_list cs x = count_list (?f @ c1 @ c2 @ [Step]) x + count_list c3 x"
    unfolding cs by simp
  from count_other_blocks [OF o]
  have "count_list cs Play_sound = length (filter (check_for_collision h p1) (gems g1))"
    "\<forall>t. count_list cs (Remove_from_sprite_lists t)
                = count_list (filter (check_for_collision h p1) (gems g1)) t"
    unfolding cnt c3 by (simp_all add: count_pickups)
  moreover from s p3 have "player_sprite g' =
           Some (pymunk_moved (is_on_ground_after env) (moved_dx env) (moved_dy env)
                   (p1\<lparr>center_x := center_x p1 + moved_dx env,
                       center_y := center_y p1 + moved_dy env\<rparr>))"
    by (auto simp: physics_step_def)
  ultimately show ?thesis
    using manage_screen_scrolling_frame [OF m] collect_gems_frame [OF c] physics_step_frame [OF s]
      g3 g'
    by simp
qed

lemma on_update_player:
  assumes "on_update h env g = Inr (g', cs)"
  shows "\<exists>p g1 c1 p1. player_sprite g = Some p \<and> check_end_of_level h g = Inr (g1, c1) \<and>
           player_sprite g1 = Some p1"
proof -
  from on_update_blocks [OF assms] obtain g1 c1 g2 c2 where
    l: "check_end_of_level h g = Inr (g1, c1)"
    and m: "manage_screen_scrolling g1 = Inr (g2, c2)"
    by blast
  from l obtain p where "player_sprite g = Some p"
    by (auto simp: check_end_of_level_def split: option.splits)
  moreover from m obtain p1 where "player_sprite g1 = Some p1"
    by (auto simp: manage_screen_scrolling_def split: option.splits)
  ultimately show ?thesis using l by blast
qed

lemma handle_level_mono:
  assumes "handle h i g = Inr (g', cs)"
  shows "level g \<le> level g'"
proof (cases i)
  case (Key_press k b)
  with assms on_key_press_view [of k b g g' cs] show ?thesis by simp
next
  case (Key_release k)
  with assms on_key_release_view [of k g] show ?thesis by auto
next
  case (Update env)
  with assms have u: "on_update h env g = Inr (g', cs)" by simp
  from on_update_player [OF u] obtain p where "player_sprite g = Some p" by blast
  from on_update_level [OF u this] show ?thesis by simp
qed

lemma handle_same_level:
  assumes "handle h i g = Inr (g', cs)" and "level g' = level g"
  shows "set (gems g') \<subseteq> set (gems g) \<and>
         (\<forall>s. Remove_from_sprite_lists s \<in> set cs \<longrightarrow> s \<in> set (gems g))"
proof (cases i)
  case (Key_press k b)
  with assms(1) on_key_press_view [of k b g g' cs] have "gems g' = gems g"
    by (simp add: gems_def)
  moreover from Key_press assms(1) have "\<forall>c \<in> set cs. is_impulse c"
    by (auto simp: on_key_press_def split: if_splits option.splits)
  ultimately show ?thesis by auto
next
  case (Key_release k)
  with assms(1) on_key_release_view [of k g] show ?thesis by (auto simp: gems_def)
next
  case (Update env)
  with assms have u: "on_update h env g = Inr (g', cs)" by simp
  from on_update_player [OF u] obtain p where p: "player_sprite g = Some p" by blast
  from on_update_level [OF u p] assms(2) have "center_x p < real_of_int (end_of_map g)"
    by (simp split: if_splits)
  from check_end_of_level_stay [OF p this] have l: "check_end_of_level h g = Inr (g, [])" .
  from on_update_world [OF u l p]
  have g: "gems g' = filter (\<lambda>s. \<not> check_for_collision h p s) (gems g)"
    and c: "\<forall>s. count_list cs (Remove_from_sprite_lists s)
                = count_list (filter (check_for_collision h p) (gems g)) s"
    by simp_all
  have "s \<in> set (gems g)" if "Remove_from_sprite_lists s \<in> set cs" for s
  proof -
    from that have "count_list cs (Remove_from_sprite_lists s) \<noteq> 0"
      by (simp add: count_list_0_iff)
    with c have "count_list (filter (check_for_collision h p) (gems g)) s \<noteq> 0" by simp
    then show ?thesis by (simp add: count_list_0_iff)
  qed
  with g show ?thesis by auto
qed

lemma run_level_mono: "run h ins g = Inr (g', cs) \<Longrightarrow> level g \<le> level g'"
proof (induction ins arbitrary: g cs)
  case Nil
  then show ?case by simp
next
  case (Cons i ins)
  from Cons.prems obtain g1 c1 c2 where
    h: "handle h i g = Inr (g1, c1)" and r: "run h ins g1 = Inr (g', c2)"
    by (auto simp: and_then_Inr)
  from handle_level_mono [OF h] Cons.IH [OF r] show ?case by simp
qed

lemma run_same_level:
  "run h ins g = Inr (g', cs) \<Longrightarrow> level g' = level g \<Longrightarrow> s \<notin> set (gems g) \<Longrightarrow>
   s \<notin> set (gems g') \<and> Remove_from_sprite_lists s \<notin> set cs"
proof (induction ins arbitrary: g cs)
  case Nil
  then show ?case by simp
next
  case (Cons i ins)
  from Cons.prems(1) obtain g1 c1 c2 where
    h: "handle h i g = Inr (g1, c1)" and r: "run h ins g1 = Inr (g', c2)" and cs: "cs = c1 @ c2"
    by (auto simp: and_then_Inr)
  from handle_level_mono [OF h] run_level_mono [OF r] Cons.prems(2)
  have l1: "level g1 = level g" and l2: "level g' = level g1" by simp_all
  from handle_same_level [OF h l1] Cons.prems(3)
  have s1: "s \<notin> set (gems g1)" and r1: "Remove_from_sprite_lists s \<notin> set c1" by auto
  from Cons.IH [OF r l2 s1] r1 cs show ?case by simp
qed





lemma on_update_inside:
  assumes u: "on_update h env g = Inr (g', cs)"
    and l: "check_end_of_level h g = Inr (g1, c1)" and p: "player_sprite g1 = Some p"
    and i: "view_left g \<in> \<int>" "view_bottom g \<in> \<int>"
  shows "(view_left g + LEFT_VIEWPORT_MARGIN \<le> sprite_left p \<and>
          sprite_right p \<le> view_left g + SCREEN_WIDTH - RIGHT_VIEWPORT_MARGIN \<longrightarrow>
            view_left g' = view_left g) \<and>
         (sprite_top p \<le> view_bottom g + SCREEN_HEIGHT - TOP_VIEWPORT_MARGIN \<and>
          view_bottom g + BOTTOM_VIEWPORT_MARGIN \<le> sprite_bottom p \<longrightarrow>
            view_bottom g' = view_bottom g)"
proof -
  from on_update_view [OF u] l p obtain g2 c2 where
    e: "view_left g1 = view_left g" "view_bottom g1 = view_bottom g"
    and m: "manage_screen_scrolling g1 = Inr (g2, c2)"
    and e': "view_left g' = view_left g2" "view_bottom g' = view_bottom g2"
    by auto
  from manage_screen_scrolling_result [OF m p] e e' i show ?thesis
    by (auto simp: scroll_horizontal_inside scroll_vertical_inside py_int_of_int)
qed

lemma level_change_result:
  assumes p: "player_sprite g = Some p" and e: "physics_engine g = Some e"
    and c: "real_of_int (end_of_map g) \<le> center_x p" and m: "read_tmx h (level g + 1) = Some m"
  shows "\<exists>g1 p1 g' cs.
           check_end_of_level h g = Inr (g1, [Read_tmx (level g + 1), New_physics_engine]) \<and>
           level g1 = level g + 1 \<and> end_of_map g1 = map_width m * 30 + 800 \<and>
           wall_list g1 = Some (platforms m) \<and> item_list g1 = Some (dynamic_items m) \<and>
           gem_list g1 = Some (valuables m) \<and> physics_engine g1 = Some (new_engine m) \<and>
           player_sprite g1 = Some p1 \<and>
           center_x p1 = real_of_int (SPRITE_SIZE * 2) + real_of_int SPRITE_SIZE / 2 \<and>
           center_y p1 = real_of_int (SPRITE_SIZE * 2) + real_of_int SPRITE_SIZE / 2 \<and>
           on_update h env g = Inr (g', cs) \<and>
           level g' = level g + 1 \<and> end_of_map g' = map_width m * 30 + 800 \<and>
           wall_list g' = Some (platforms m) \<and> item_list g' = Some (dynamic_items m) \<and>
           physics_engine g' = Some (new_engine m) \<and>
           gems g' = filter (\<lambda>s. \<not> check_for_collision h p1 s) (valuables m)"
proof -
  from setup_level_result [OF m, of "g\<lparr>level := level g + 1\<rparr>"] obtain g1 where
    s: "setup_level h (level g + 1) (g\<lparr>level := level g + 1\<rparr>)
          = Inr (g1, [Read_tmx (level g + 1), New_physics_engine])"
    and f: "level g1 = level g + 1" "end_of_map g1 = map_width m * 30 + 800"
      "wall_list g1 = Some (platforms m)" "item_list g1 = Some (dynamic_items m)"
      "gem_list g1 = Some (valuables m)" "physics_engine g1 = Some (new_engine m)"
    and p1: "player_sprite g1 = Some ((PlayerSprite h)\<lparr>center_x := spawn_x, center_y := spawn_y\<rparr>)"
    by auto
  let ?p1 = "(PlayerSprite h)\<lparr>center_x := spawn_x, center_y := spawn_y\<rparr>"
  from check_end_of_level_go [OF p c, of h] s
  have l: "check_end_of_level h g = Inr (g1, [Read_tmx (level g + 1), New_physics_engine])"
    by simp
  from on_update_total [OF e l p1 f(5)] obtain g' cs where
    u: "on_update h env g = Inr (g', cs)" by blast
  from on_update_world [OF u l p1] f
  have "level g' = level g + 1" "end_of_map g' = map_width m * 30 + 800"
    "wall_list g' = Some (platforms m)" "item_list g' = Some (dynamic_items m)"
    "physics_engine g' = Some (new_engine m)"
    "gems g' = filter (\<lambda>s. \<not> check_for_collision h ?p1 s) (valuables m)"
    by (simp_all add: gems_def)
  moreover have "center_x ?p1 = real_of_int (SPRITE_SIZE * 2) + real_of_int SPRITE_SIZE / 2"
    "center_y ?p1 = real_of_int (SPRITE_SIZE * 2) + real_of_int SPRITE_SIZE / 2"
    by (simp_all add: spawn_x_def spawn_y_def)
  ultimately show ?thesis using l f p1 u by blast
qed

lemma level_change_fails:
  assumes p: "player_sprite g = Some p" and e: "physics_engine g = Some e"
    and c: "real_of_int (end_of_map g) \<le> center_x p" and m: "read_tmx h (level g + 1) = None"
  shows "on_update h env g = Inl MapError"
proof -
  from check_end_of_level_go [OF p c, of h] setup_level_error [OF m]
  have "check_end_of_level h g = Inl MapError" by simp
  from on_update_error [OF e this] show ?thesis .
qed

lemma level_stays:
  assumes p: "player_sprite g = Some p" and e: "physics_engine g = Some e"
    and c: "center_x p < real_of_int (end_of_map g)" and gl: "gem_list g = Some gl"
  shows "\<exists>g' cs. on_update h env g = Inr (g', cs) \<and> level g' = level g"
proof -
  from check_end_of_level_stay [OF p c] have l: "check_end_of_level h g = Inr (g, [])" .
  from on_update_total [OF e l p gl] obtain g' cs where
    u: "on_update h env g = Inr (g', cs)" by blast
  from on_update_level [OF u p] c have "level g' = level g" by simp
  with u show ?thesis by blast
qed

section \<open>Facts about the animation update\<close>






section \<open>The example game, evaluated\<close>

lemma SPRITE_SIZE_eq: "SPRITE_SIZE = 65"
  by (simp add: SPRITE_SIZE_def SPRITE_IMAGE_SIZE_def SPRITE_SCALE_def py_int_def)

lemma spawn_eq: "spawn_x = 325 / 2" "spawn_y = 325 / 2"
  by (simp_all add: spawn_x_def spawn_y_def SPRITE_SIZE_eq)

lemmas constant_defs = SCREEN_GRID_WIDTH_def SCREEN_WIDTH_def SCREEN_HEIGHT_def
  LEFT_VIEWPORT_MARGIN_def RIGHT_VIEWPORT_MARGIN_def
  BOTTOM_VIEWPORT_MARGIN_def TOP_VIEWPORT_MARGIN_def DEAD_ZONE_def DISTANCE_TO_CHANGE_TEXTURE_def
  PLAYER_MOVE_FORCE_ON_GROUND_def PLAYER_MOVE_FORCE_IN_AIR_def PLAYER_JUMP_IMPULSE_def

lemmas sprite_defs = sprite_left_def sprite_right_def sprite_top_def sprite_bottom_def

lemmas example_defs = example_game_at_def example_host_def example_env_def example_map1_def
  example_map2_def PlayerSprite_def spawn_eq
  example_jump_env_def example_host_last_def example_game_next_def example_game_jumped_def

lemmas update_defs = on_update_def and_then_def update_player_forces_def check_end_of_level_def
  setup_level_def manage_screen_scrolling_def scroll_horizontal_def scroll_vertical_def
  collect_gems_def physics_step_def pymunk_moved_def turn_def py_int_def

lemma main_example: "main example_host = Inr (example_game_at (325 / 2), [Read_tmx 1, New_physics_engine])"
  by (simp add: main_def GameWindow_def setup_level_def example_defs constant_defs)

lemma example_first_tick: 
  "on_update example_host example_env (example_game_at (325 / 2)) =
     Inr (example_game_next,
          [Set_friction 1, Set_viewport (- 759) 1161 0 1080,
           Remove_from_sprite_lists 2, Play_sound, Step])"
  by (simp add: update_defs example_defs constant_defs sprite_defs Let_def)

lemma example_last_tick:
  "on_update example_host example_env (example_game_at 1090) =
     Inr ((example_game_at 1110)
            \<lparr>player_sprite := Some ((PlayerSprite example_host)
               \<lparr>center_x := 1110, center_y := spawn_y, texture := Walk 1 RIGHT_FACING,
                current_texture := 1\<rparr>),
             view_left := 92\<rparr>,
          [Set_friction 1, Set_viewport 92 2012 0 1080, Step])"
  by (simp add: update_defs example_defs constant_defs sprite_defs Let_def)

lemma example_jump_tick:
  "on_update example_host example_jump_env (example_game_at (325 / 2)) =
     Inr (example_game_jumped,
          [Set_friction 1, Set_viewport (- 759) 1161 0 1080,
           Remove_from_sprite_lists 2, Play_sound, Step])"
  by (simp add: update_defs example_defs constant_defs sprite_defs Let_def)

lemma example_scroll_up_tick:
  "on_update example_host example_env example_game_jumped =
     Inr (example_game_jumped
            \<lparr>player_sprite := Some ((PlayerSprite example_host)
               \<lparr>center_x := 405 / 2, center_y := 2125 / 2, texture := Walk 1 RIGHT_FACING,
                current_texture := 1\<rparr>),
             view_bottom := 114\<rparr>,
          [Set_friction 1, Set_viewport (- 759) 1161 114 1194, Step])"
  by (simp add: update_defs example_defs constant_defs sprite_defs Let_def)

lemma example_next_run:
  "run example_host [Key_press Key_LEFT False, Update example_env] example_game_next =
     Inr (example_game_next
            \<lparr>player_sprite := Some ((PlayerSprite example_host)
               \<lparr>center_x := 405 / 2, center_y := spawn_y, texture := Walk 2 RIGHT_FACING,
                current_texture := 2\<rparr>),
             left_pressed := True\<rparr>,
          [Apply_force (- 8000) 0, Set_friction 0, Step])"
  by (simp add: on_key_press_def update_defs example_defs constant_defs sprite_defs Let_def)

lemma example_level_tick:
  "on_update example_host example_env (example_game_at 1100) =
     Inr (\<lparr>player_sprite = Some ((PlayerSprite example_host)
               \<lparr>center_x := 365 / 2, center_y := spawn_y, texture := Walk 1 RIGHT_FACING,
                current_texture := 1\<rparr>),
           player_list = Some [Player_ref], wall_list = Some (platforms example_map2),
           item_list = Some (dynamic_items example_map2), gem_list = Some [12],
           left_pressed = False, right_pressed = False, view_bottom = 0, view_left = - 759,
           physics_engine = Some (new_engine example_map2), level = 2, end_of_map = 1400\<rparr>,
          [Set_friction 1, Read_tmx 2, New_physics_engine,
           Set_viewport (- 759) 1161 0 1080, Remove_from_sprite_lists 2, Play_sound, Step])"
  by (simp add: update_defs example_defs constant_defs sprite_defs Let_def)

lemma example_jump_run:
  "run example_host
     [Key_press Key_W True, Update example_env, Key_press Key_UP False, Key_release Key_W]
     (example_game_at 300) =
   Inr ((example_game_at 320)
          \<lparr>player_sprite := Some ((PlayerSprite example_host)
             \<lparr>center_x := 320, center_y := spawn_y, texture := Walk 1 RIGHT_FACING,
              current_texture := 1\<rparr>),
           view_left := - 622\<rparr>,
        [Apply_impulse 0 1400, Set_friction 1, Set_viewport (- 622) 1298 0 1080, Step])"
  by (simp add: on_key_press_def on_key_release_def update_defs example_defs constant_defs
      sprite_defs Let_def)

section \<open>The order of the blocks in an update\<close>

lemma on_update_calls_sorted:
  assumes "on_update h env g = Inr (g', cs)"
  shows "sorted (map block_of cs) \<and> block_of (hd cs) = 1 \<and>
         (\<exists>pre. cs = pre @ [Step] \<and> (\<forall>c \<in> set pre. block_of c < 5))"
proof -
  from on_update_blocks [OF assms] obtain g1 c1 g2 c2 g3 c3 where
    l: "check_end_of_level h g = Inr (g1, c1)"
    and m: "manage_screen_scrolling g1 = Inr (g2, c2)"
    and c: "collect_gems h g2 = Inr (g3, c3)"
    and cs: "cs = update_player_forces (left_pressed g) (right_pressed g) (is_on_ground env)
                @ c1 @ c2 @ c3 @ [Step]"
    by blast
  let ?f = "update_player_forces (left_pressed g) (right_pressed g) (is_on_ground env)"
  have f: "\<And>x. x \<in> set ?f \<Longrightarrow> block_of x = 1" by (rule forces_block)
  have b1: "\<And>x. x \<in> set c1 \<Longrightarrow> block_of x = 2" using l by (rule level_block)
  have b2: "\<And>x. x \<in> set c2 \<Longrightarrow> block_of x = 3" using m by (rule scrolling_block)
  have b3: "\<And>x. x \<in> set c3 \<Longrightarrow> block_of x = 4" using c by (rule gems_block)
  have s34: "sorted (map block_of (c3 @ [Step]))"
    using b3 by (rule sorted_block_prefix) simp_all
  have s234: "sorted (map block_of (c2 @ c3 @ [Step]))"
    using b2 s34 by (rule sorted_block_prefix) (auto dest: b3)
  have s1234: "sorted (map block_of (c1 @ c2 @ c3 @ [Step]))"
    using b1 s234 by (rule sorted_block_prefix) (auto dest: b2 b3)
  have s: "sorted (map block_of cs)"
    unfolding cs using f s1234 by (rule sorted_block_prefix) (auto dest: b1 b2 b3)
  have h: "block_of (hd cs) = 1"
    unfolding cs using forces_nonempty [of "left_pressed g" "right_pressed g" "is_on_ground env"]
    by (simp add: f)
  have "cs = (?f @ c1 @ c2 @ c3) @ [Step]" by (simp add: cs)
  moreover have "\<forall>x \<in> set (?f @ c1 @ c2 @ c3). block_of x < 5"
    by (auto dest: f b1 b2 b3)
  ultimately have "\<exists>pre. cs = pre @ [Step] \<and> (\<forall>c \<in> set pre. block_of c < 5)" by blast
  with s h show ?thesis by blast
qed

text \<open>
  C1 (as the code has it). In every update that completes, the calls come in the order of the
  blocks of \<open>on_update\<close>: the force and friction calls of the input translation first, then
  the calls of a level change, then the viewport call of the camera, then the removals and
  sounds of the collectibles, and the physics step last and exactly once. The level check
  decides on the player's position from before the step, and the animation update is the
  callback of the step, run on the player the step has moved. The level-end, camera and
  collectible checks of an update therefore come before its physics step, not after it.
\<close>

theorem on_update_order:
  assumes "on_update h env g = Inr (g', cs)"
  shows "sorted (map block_of cs) \<and> block_of (hd cs) = 1 \<and>
         (\<exists>pre. cs = pre @ [Step] \<and> (\<forall>c \<in> set pre. block_of c < 5)) \<and>
         (\<forall>p. player_sprite g = Some p \<longrightarrow>
            level g' = (if real_of_int (end_of_map g) \<le> center_x p then level g + 1 else level g)) \<and>
         (\<forall>g1 c1 p1. check_end_of_level h g = Inr (g1, c1) \<and> player_sprite g1 = Some p1 \<longrightarrow>
            player_sprite g' =
              Some (pymunk_moved (is_on_ground_after env) (moved_dx env) (moved_dy env)
                      (p1\<lparr>center_x := center_x p1 + moved_dx env,
                          center_y := center_y p1 + moved_dy env\<rparr>)))"
  using on_update_calls_sorted [OF assms] on_update_level [OF assms] on_update_world [OF assms]
  by blast

theorem on_update_order_witness:
  "calls_of (on_update example_host example_env (example_game_at (325 / 2))) =
     [Set_friction 1, Set_viewport (- 759) 1161 0 1080, Remove_from_sprite_lists 2,
      Play_sound, Step] \<and>
   sorted (map block_of (calls_of (on_update example_host example_env (example_game_at (325 / 2))))) \<and>
   block_of (hd (calls_of (on_update example_host example_env (example_game_at (325 / 2))))) = 1 \<and>
   (\<exists>pre. calls_of (on_update example_host example_env (example_game_at (325 / 2))) = pre @ [Step]
       \<and> (\<forall>c \<in> set pre. block_of c < 5))"
  using on_update_order [OF example_first_tick]
  by (simp add: example_first_tick calls_of_def)

text \<open>
  C1 as stated fails: with the player at 1090 and the level ending at 1100, an update whose
  step moves the player by 20 makes the viewport call before the step, and leaves the level
  at 1 although the player stands at 1110 after the step.
\<close>

theorem step_first_counterexample:
  "calls_of (on_update example_host example_env (example_game_at 1090)) =
     [Set_friction 1, Set_viewport 92 2012 0 1080, Step] \<and>
   map_option level (game_of (on_update example_host example_env (example_game_at 1090))) = Some 1 \<and>
   map_option (\<lambda>g. map_option center_x (player_sprite g))
     (game_of (on_update example_host example_env (example_game_at 1090))) = Some (Some 1110) \<and>
   end_of_map (example_game_at 1090) = 1100"
  unfolding example_last_tick
  by (simp add: calls_of_def game_of_def example_game_at_def)

section \<open>Input translation\<close>



section \<open>Facing\<close>



section \<open>The walk cycle\<close>




section \<open>The jump impulse\<close>

text \<open>
  C8. A press of a jump key (UP, SPACE or W) with the player on the ground applies exactly one
  impulse (0, 1400) and changes nothing in the window; a press in the air applies no impulse
  and changes nothing. In every run of key presses, key releases and updates, the impulses
  applied are exactly one impulse (0, 1400) for each press of a jump key on the ground: no
  update and no release applies one, however long the key stays down.
\<close>

theorem jump_impulse:
  "(physics_engine g = Some e \<and> (k = Key_UP \<or> k = Key_SPACE \<or> k = Key_W) \<longrightarrow>
      on_key_press k True g = Inr (g, [Apply_impulse 0 1400]) \<and>
      on_key_press k False g = Inr (g, [])) \<and>
   (run h ins g0 = Inr (g1, cs) \<longrightarrow>
      filter is_impulse cs = replicate (length (filter grounded_jump ins)) (Apply_impulse 0 1400))"
  using run_impulses [of h ins g0 g1 cs]
  by (auto simp: on_key_press_def PLAYER_JUMP_IMPULSE_def)

theorem jump_impulse_witness:
  "on_key_press Key_SPACE True (example_game_at 300)
     = Inr (example_game_at 300, [Apply_impulse 0 1400]) \<and>
   on_key_press Key_SPACE False (example_game_at 300) = Inr (example_game_at 300, []) \<and>
   filter is_impulse
     (calls_of (run example_host
        [Key_press Key_W True, Update example_env, Key_press Key_UP False, Key_release Key_W]
        (example_game_at 300))) = [Apply_impulse 0 1400]"
proof -
  have "physics_engine (example_game_at 300) = Some (new_engine example_map1)"
    by (simp add: example_game_at_def)
  with jump_impulse [of "example_game_at 300" "new_engine example_map1" Key_SPACE example_host
      "[Key_press Key_W True, Update example_env, Key_press Key_UP False, Key_release Key_W]"
      "example_game_at 300"]
  show ?thesis
    by (simp add: example_jump_run calls_of_def del: run.simps)
qed

section \<open>Collectibles\<close>

text \<open>
  C9. In an update, with the collectibles of the list distinct, the list after the update is
  the list the collision check saw without the collectibles that touch the player, in the
  same order; each of those is removed by exactly one call and each removal plays the sound
  once, and no collectible that does not touch the player is removed. In every later run
  that stays in the same level, a collectible that is not in the list stays out of it and is
  never removed again.
\<close>

theorem collectibles_removed_once:
  assumes "on_update h env g = Inr (g', cs)"
    and "check_end_of_level h g = Inr (g1, c1)" and "player_sprite g1 = Some p"
    and "distinct (gems g1)"
    and "run h ins g' = Inr (g'', cs')" and "level g'' = level g'"
  shows "gems g' = filter (\<lambda>s. \<not> check_for_collision h p s) (gems g1) \<and>
         (\<forall>s \<in> set (gems g1). count_list cs (Remove_from_sprite_lists s)
            = (if check_for_collision h p s then 1 else 0)) \<and>
         count_list cs Play_sound = length (filter (check_for_collision h p) (gems g1)) \<and>
         (\<forall>s. s \<notin> set (gems g') \<longrightarrow>
            s \<notin> set (gems g'') \<and> Remove_from_sprite_lists s \<notin> set cs')"
  using on_update_world [OF assms(1-3)] run_same_level [OF assms(5,6)]
    count_list_distinct_filter [OF assms(4), of _ "check_for_collision h p"]
  by auto

theorem collectibles_removed_once_witness:
  "distinct (gems (example_game_at (325 / 2))) \<and>
   map_option gems (game_of (on_update example_host example_env (example_game_at (325 / 2))))
     = Some [5, 9] \<and>
   count_list (calls_of (on_update example_host example_env (example_game_at (325 / 2))))
     (Remove_from_sprite_lists 2) = 1 \<and>
   count_list (calls_of (on_update example_host example_env (example_game_at (325 / 2))))
     Play_sound = 1 \<and>
   Remove_from_sprite_lists 2 \<notin> set (calls_of (run example_host
     [Key_press Key_LEFT False, Update example_env] example_game_next))"
proof -
  let ?p = "(PlayerSprite example_host)\<lparr>center_x := 325 / 2, center_y := spawn_y\<rparr>"
  have l: "check_end_of_level example_host (example_game_at (325 / 2))
             = Inr (example_game_at (325 / 2), [])"
    by (simp add: check_end_of_level_def example_defs)
  have p: "player_sprite (example_game_at (325 / 2)) = Some ?p"
    by (simp add: example_game_at_def)
  have d: "distinct (gems (example_game_at (325 / 2)))"
    by (simp add: gems_def example_defs)
  have g: "gems (example_game_at (325 / 2)) = [2, 5, 9]"
    by (simp add: gems_def example_defs)
  have c: "check_for_collision example_host ?p 2" "\<not> check_for_collision example_host ?p 5"
    "\<not> check_for_collision example_host ?p 9"
    by (simp_all add: example_defs)
  have v: "level (example_game_next
            \<lparr>player_sprite := Some ((PlayerSprite example_host)
               \<lparr>center_x := 405 / 2, center_y := spawn_y, texture := Walk 2 RIGHT_FACING,
                current_texture := 2\<rparr>),
             left_pressed := True\<rparr>) = level example_game_next"
    by simp
  have n: "2 \<notin> set (gems example_game_next)"
    by (simp add: gems_def example_game_next_def)
  from collectibles_removed_once [OF example_first_tick l p d example_next_run v] g c n
  show ?thesis
    by (simp add: example_first_tick example_next_run calls_of_def game_of_def d del: run.simps)
qed

section \<open>The viewport offsets\<close>




section \<open>Independence of the camera axes\<close>

text \<open>
  C7. In every update of a run started by \<open>main\<close>, if the player's left and right edges
  lie inside the horizontal margin band (left edge at or beyond \<open>view_left + 900\<close>, right
  edge at or below \<open>view_left + 1920 - 900\<close>) then \<open>view_left\<close> is the same after the
  update, whether or not the update scrolls vertically; the same holds for \<open>view_bottom\<close>
  and the vertical band. The horizontal checks read nothing of the player's vertical
  position or extent, and the vertical checks nothing of the horizontal ones.
\<close>

theorem camera_axes_independent:
  assumes "main h = Inr (g0, c0)" and "run h ins g0 = Inr (g, cs0)"
    and "on_update h env g = Inr (g', cs)"
    and "check_end_of_level h g = Inr (g1, c1)" and "player_sprite g1 = Some p"
  shows "(view_left g + LEFT_VIEWPORT_MARGIN \<le> sprite_left p \<and>
          sprite_right p \<le> view_left g + SCREEN_WIDTH - RIGHT_VIEWPORT_MARGIN \<longrightarrow>
            view_left g' = view_left g) \<and>
         (sprite_top p \<le> view_bottom g + SCREEN_HEIGHT - TOP_VIEWPORT_MARGIN \<and>
          view_bottom g + BOTTOM_VIEWPORT_MARGIN \<le> sprite_bottom p \<longrightarrow>
            view_bottom g' = view_bottom g) \<and>
         scroll_horizontal (p\<lparr>center_y := a, box_bottom := b, box_top := c\<rparr>) vl
           = scroll_horizontal p vl \<and>
         scroll_vertical (p\<lparr>center_x := a, box_left := b, box_right := c\<rparr>) vb
           = scroll_vertical p vb"
proof -
  from main_Ints [OF assms(1)] have "view_left g0 \<in> \<int>" "view_bottom g0 \<in> \<int>" by simp_all
  from run_Ints [OF assms(2) this] have "view_left g \<in> \<int>" "view_bottom g \<in> \<int>" by simp_all
  note inside = on_update_inside [OF assms(3-5) this]
  have "scroll_horizontal (p\<lparr>center_y := a, box_bottom := b, box_top := c\<rparr>) vl
           = scroll_horizontal p vl"
    "scroll_vertical (p\<lparr>center_x := a, box_left := b, box_right := c\<rparr>) vb
           = scroll_vertical p vb"
    by (simp_all add: scroll_horizontal_def scroll_vertical_def sprite_defs cong: if_cong)
  with inside show ?thesis by blast
qed

theorem camera_axes_independent_witness:
  "run example_host [Update example_jump_env] (example_game_at (325 / 2))
     = Inr (example_game_jumped,
          [Set_friction 1, Set_viewport (- 759) 1161 0 1080,
           Remove_from_sprite_lists 2, Play_sound, Step]) \<and>
   view_left example_game_jumped = - 759 \<and> view_bottom example_game_jumped = 0 \<and>
   map_option view_left (game_of (on_update example_host example_env example_game_jumped))
     = Some (- 759) \<and>
   map_option view_bottom (game_of (on_update example_host example_env example_game_jumped))
     = Some 114"
proof -
  let ?p = "(PlayerSprite example_host)
          \<lparr>center_x := 365 / 2, center_y := 2125 / 2, texture := Jump RIGHT_FACING,
           x_odometer := 20\<rparr>"
  have r: "run example_host [Update example_jump_env] (example_game_at (325 / 2))
     = Inr (example_game_jumped,
          [Set_friction 1, Set_viewport (- 759) 1161 0 1080,
           Remove_from_sprite_lists 2, Play_sound, Step])"
    by (simp add: example_jump_tick and_then_def)
  have l: "check_end_of_level example_host example_game_jumped = Inr (example_game_jumped, [])"
    by (simp add: check_end_of_level_def example_defs)
  have p: "player_sprite example_game_jumped = Some ?p"
    and v: "view_left example_game_jumped = - 759" "view_bottom example_game_jumped = 0"
    by (simp_all add: example_game_jumped_def example_game_at_def)
  have i: "view_left example_game_jumped + LEFT_VIEWPORT_MARGIN \<le> sprite_left ?p"
    "sprite_right ?p \<le> view_left example_game_jumped + SCREEN_WIDTH - RIGHT_VIEWPORT_MARGIN"
    by (simp_all add: v sprite_defs constant_defs example_defs)
  from camera_axes_independent [OF main_example r example_scroll_up_tick l p] i v r
  show ?thesis
    by (simp add: example_scroll_up_tick game_of_def)
qed

section \<open>Level transition\<close>

text \<open>
  C2 (as the code has it). In an update that finds the player's \<open>center_x\<close> at or beyond
  \<open>end_of_map\<close>, provided the map of the next level can be read: the level counter goes up
  by exactly 1; the wall, item and gem lists and the physics engine are those of the new map,
  \<open>end_of_map\<close> is the new map's width times 30 plus 800, and the player stands at the spawn
  point \<open>(SPRITE_SIZE * 2 + SPRITE_SIZE / 2, SPRITE_SIZE * 2 + SPRITE_SIZE / 2)\<close> when the
  level check is done; the update completes with that level, those walls, items and engine.
  If the map of the next level cannot be read, the update ends with the loader's error. An
  update that finds \<open>center_x\<close> below \<open>end_of_map\<close> completes and leaves the level counter
  as it was.
\<close>

theorem level_transition:
  assumes "player_sprite g = Some p" and "physics_engine g = Some e"
  shows "(real_of_int (end_of_map g) \<le> center_x p \<and> read_tmx h (level g + 1) = Some m \<longrightarrow>
           (\<exists>g1 p1 g' cs.
              check_end_of_level h g = Inr (g1, [Read_tmx (level g + 1), New_physics_engine]) \<and>
              level g1 = level g + 1 \<and> end_of_map g1 = map_width m * 30 + 800 \<and>
              wall_list g1 = Some (platforms m) \<and> item_list g1 = Some (dynamic_items m) \<and>
              gem_list g1 = Some (valuables m) \<and> physics_engine g1 = Some (new_engine m) \<and>
              player_sprite g1 = Some p1 \<and>
              center_x p1 = real_of_int (SPRITE_SIZE * 2) + real_of_int SPRITE_SIZE / 2 \<and>
              center_y p1 = real_of_int (SPRITE_SIZE * 2) + real_of_int SPRITE_SIZE / 2 \<and>
              on_update h env g = Inr (g', cs) \<and>
              level g' = level g + 1 \<and> end_of_map g' = map_width m * 30 + 800 \<and>
              wall_list g' = Some (platforms m) \<and> item_list g' = Some (dynamic_items m) \<and>
              physics_engine g' = Some (new_engine m) \<and>
              gems g' = filter (\<lambda>s. \<not> check_for_collision h p1 s) (valuables m))) \<and>
         (real_of_int (end_of_map g) \<le> center_x p \<and> read_tmx h (level g + 1) = None \<longrightarrow>
            on_update h env g = Inl MapError) \<and>
         (center_x p < real_of_int (end_of_map g) \<and> gem_list g = Some gl \<longrightarrow>
            (\<exists>g' cs. on_update h env g = Inr (g', cs) \<and> level g' = level g))"
  using level_change_result [OF assms, of h m env] level_change_fails [OF assms, of h env]
    level_stays [OF assms, of gl h env]
  by blast

theorem level_transition_witness:
  "player_sprite (example_game_at 1100)
     = Some ((PlayerSprite example_host)\<lparr>center_x := 1100, center_y := spawn_y\<rparr>) \<and>
   real_of_int (end_of_map (example_game_at 1100)) \<le> 1100 \<and>
   map_option level (game_of (on_update example_host example_env (example_game_at 1100))) = Some 2 \<and>
   map_option wall_list (game_of (on_update example_host example_env (example_game_at 1100)))
     = Some (Some [10, 11]) \<and>
   map_option end_of_map (game_of (on_update example_host example_env (example_game_at 1100)))
     = Some 1400"
proof -
  let ?p = "(PlayerSprite example_host)\<lparr>center_x := 1100, center_y := spawn_y\<rparr>"
  have p: "player_sprite (example_game_at 1100) = Some ?p"
    and e: "physics_engine (example_game_at 1100) = Some (new_engine example_map1)"
    and c: "real_of_int (end_of_map (example_game_at 1100)) \<le> center_x ?p"
    and m: "read_tmx example_host (level (example_game_at 1100) + 1) = Some example_map2"
    by (simp_all add: example_game_at_def example_host_def)
  from level_transition [OF p e, of example_host example_map2 example_env "[]"] c m
  show ?thesis
    by (auto simp: game_of_def example_map2_def example_game_at_def)
qed

text \<open>
  C2 as stated fails where there is no next map: with level 1 the only map, an update with the
  player at the end of the map replaces nothing and raises the loader's error.
\<close>

theorem last_level_counterexample:
  "on_update example_host_last example_env (example_game_at 1100) = Inl MapError \<and>
   map_option center_x (player_sprite (example_game_at 1100)) = Some 1100 \<and>
   end_of_map (example_game_at 1100) = 1100 \<and>
   read_tmx example_host_last (level (example_game_at 1100) + 1) = None"
  by (simp add: update_defs example_defs)

section \<open>What a level change keeps\<close>

text \<open>
  C10. \<open>setup\<close> leaves \<open>view_left\<close>, \<open>view_bottom\<close>, \<open>left_pressed\<close> and \<open>right_pressed\<close>
  as they were and makes no viewport call; so after the level check of an update that
  changes the level, the four fields are what they were before it, while the player stands
  at the spawn point. Of the other code, the collectible loop and the physics step change
  none of the four, the camera update changes no key flag, and the key callbacks change no
  viewport offset; the constructor sets the offsets to 0 and the flags to false.
\<close>

theorem setup_keeps_camera_and_keys:
  "(setup_level h l g = Inr (g', cs) \<longrightarrow>
      view_left g' = view_left g \<and> view_bottom g' = view_bottom g \<and>
      left_pressed g' = left_pressed g \<and> right_pressed g' = right_pressed g \<and>
      (\<forall>c \<in> set cs. block_of c \<noteq> 3)) \<and>
   (check_end_of_level h g = Inr (g1, c1) \<and> player_sprite g = Some p \<and>
    real_of_int (end_of_map g) \<le> center_x p \<longrightarrow>
      level g1 = level g + 1 \<and>
      view_left g1 = view_left g \<and> view_bottom g1 = view_bottom g \<and>
      left_pressed g1 = left_pressed g \<and> right_pressed g1 = right_pressed g \<and>
      map_option center_x (player_sprite g1) = Some spawn_x \<and>
      map_option center_y (player_sprite g1) = Some spawn_y) \<and>
   (collect_gems h g = Inr (g2, c2) \<longrightarrow>
      view_left g2 = view_left g \<and> view_bottom g2 = view_bottom g \<and>
      left_pressed g2 = left_pressed g \<and> right_pressed g2 = right_pressed g) \<and>
   (physics_step env g = Inr (g3, c3) \<longrightarrow>
      view_left g3 = view_left g \<and> view_bottom g3 = view_bottom g \<and>
      left_pressed g3 = left_pressed g \<and> right_pressed g3 = right_pressed g) \<and>
   (manage_screen_scrolling g = Inr (g4, c4) \<longrightarrow>
      left_pressed g4 = left_pressed g \<and> right_pressed g4 = right_pressed g) \<and>
   (on_key_press k b g = Inr (g5, c5) \<longrightarrow>
      view_left g5 = view_left g \<and> view_bottom g5 = view_bottom g) \<and>
   view_left (on_key_release k g) = view_left g \<and>
   view_bottom (on_key_release k g) = view_bottom g \<and>
   view_left GameWindow = 0 \<and> view_bottom GameWindow = 0 \<and>
   \<not> left_pressed GameWindow \<and> \<not> right_pressed GameWindow"
proof -
  have a: "setup_level h l g = Inr (g', cs) \<longrightarrow>
      view_left g' = view_left g \<and> view_bottom g' = view_bottom g \<and>
      left_pressed g' = left_pressed g \<and> right_pressed g' = right_pressed g \<and>
      (\<forall>c \<in> set cs. block_of c \<noteq> 3)"
    using setup_level_frame [of h l g g' cs] setup_level_calls [of h l g g' cs] by auto
  have b: "check_end_of_level h g = Inr (g1, c1) \<and> player_sprite g = Some p \<and>
    real_of_int (end_of_map g) \<le> center_x p \<longrightarrow>
      level g1 = level g + 1 \<and>
      view_left g1 = view_left g \<and> view_bottom g1 = view_bottom g \<and>
      left_pressed g1 = left_pressed g \<and> right_pressed g1 = right_pressed g \<and>
      map_option center_x (player_sprite g1) = Some spawn_x \<and>
      map_option center_y (player_sprite g1) = Some spawn_y"
    using check_end_of_level_frame [of h g g1 c1] check_end_of_level_level [of h g g1 c1 p]
    by (auto simp: check_end_of_level_def setup_level_def split: option.splits)
  have c: "view_left GameWindow = 0 \<and> view_bottom GameWindow = 0 \<and>
     \<not> left_pressed GameWindow \<and> \<not> right_pressed GameWindow"
    by (simp add: GameWindow_def)
  from a b c collect_gems_frame [of h g g2 c2] physics_step_frame [of env g g3 c3]
    manage_screen_scrolling_frame [of g g4 c4] on_key_press_view [of k b g g5 c5]
    on_key_release_view [of k g]
  show ?thesis by blast
qed

theorem setup_keeps_camera_and_keys_witness:
  "map_option view_left (game_of (check_end_of_level example_host
     ((example_game_at 1200)\<lparr>view_left := 300, view_bottom := 7, right_pressed := True\<rparr>)))
       = Some 300 \<and>
   map_option view_bottom (game_of (check_end_of_level example_host
     ((example_game_at 1200)\<lparr>view_left := 300, view_bottom := 7, right_pressed := True\<rparr>)))
       = Some 7 \<and>
   map_option right_pressed (game_of (check_end_of_level example_host
     ((example_game_at 1200)\<lparr>view_left := 300, view_bottom := 7, right_pressed := True\<rparr>)))
       = Some True \<and>
   map_option level (game_of (check_end_of_level example_host
     ((example_game_at 1200)\<lparr>view_left := 300, view_bottom := 7, right_pressed := True\<rparr>)))
       = Some 2"
proof -
  let ?g = "(example_game_at 1200)\<lparr>view_left := 300, view_bottom := 7, right_pressed := True\<rparr>"
  let ?p = "(PlayerSprite example_host)\<lparr>center_x := 1200, center_y := spawn_y\<rparr>"
  have p: "player_sprite ?g = Some ?p" and c: "real_of_int (end_of_map ?g) \<le> center_x ?p"
    and v: "view_left ?g = 300" "view_bottom ?g = 7" "right_pressed ?g" "level ?g = 1"
    by (simp_all add: example_game_at_def)
  obtain g1 c1 where l: "check_end_of_level example_host ?g = Inr (g1, c1)"
    by (simp add: check_end_of_level_def setup_level_def example_defs)
  from setup_keeps_camera_and_keys [of example_host 2 ?g g1 c1 g1 c1 ?p] l p c v
  show ?thesis
    by (simp add: game_of_def)
qed

end
